theory Spec2Isabelle
  imports Main "HOL-Library.Multiset"
begin

section \<open>Fitness Booking API: a shallow embedding\<close>

text \<open>
  The development follows the Python sources: \<^verbatim>\<open>app/utils/timezone.py\<close>,
  \<^verbatim>\<open>app/models.py\<close>, \<^verbatim>\<open>app/schemas.py\<close>, \<^verbatim>\<open>app/crud.py\<close>,
  \<^verbatim>\<open>app/api/dependencies.py\<close> and \<^verbatim>\<open>app/api/routes.py\<close>.
  The database session is an explicit store that is passed in and returned; every
  \<^verbatim>\<open>HTTPException\<close> is a value on the left of a sum; the clock readings
  (\<^verbatim>\<open>datetime.utcnow()\<close>) are arguments.
\<close>

subsection \<open>Strings: \<^verbatim>\<open>str.lower\<close>, \<^verbatim>\<open>str.strip\<close>, \<^verbatim>\<open>str.replace\<close>, \<^verbatim>\<open>str(int)\<close>\<close>

text \<open>
  Strings are modelled over 7-bit ASCII. \<^verbatim>\<open>str.lower\<close> maps \<^verbatim>\<open>A\<close>..\<^verbatim>\<open>Z\<close> to
  \<^verbatim>\<open>a\<close>..\<^verbatim>\<open>z\<close> and leaves every other character alone; \<^verbatim>\<open>str.isspace\<close> holds of
  the code points 9..13 and 28..32.
\<close>

definition lower_char :: "char \<Rightarrow> char" where
  "lower_char c =
     (let n = (of_char c :: nat) in if 65 \<le> n \<and> n \<le> 90 then char_of (n + 32) else c)"

definition lower :: "string \<Rightarrow> string" where
  "lower s = map lower_char s"

definition isspace :: "char \<Rightarrow> bool" where
  "isspace c = (let n = (of_char c :: nat) in (9 \<le> n \<and> n \<le> 13) \<or> (28 \<le> n \<and> n \<le> 32))"

definition lstrip :: "string \<Rightarrow> string" where
  "lstrip s = dropWhile isspace s"

definition rstrip :: "string \<Rightarrow> string" where
  "rstrip s = rev (dropWhile isspace (rev s))"

definition strip :: "string \<Rightarrow> string" where
  "strip s = rstrip (lstrip s)"

text \<open>\<^verbatim>\<open>s.replace(old, new)\<close> for a one-character \<^verbatim>\<open>old\<close>.\<close>

definition replace :: "char \<Rightarrow> string \<Rightarrow> string \<Rightarrow> string" where
  "replace old new s = concat (map (\<lambda>c. if c = old then new else [c]) s)"

fun str_nat :: "nat \<Rightarrow> string" where
  "str_nat n =
     (if n < 10 then [''0123456789'' ! n]
      else str_nat (n div 10) @ [''0123456789'' ! (n mod 10)])"

declare str_nat.simps [simp del]

definition str_int :: "int \<Rightarrow> string" where
  "str_int i = (if i < 0 then CHR ''-'' # str_nat (nat (- i)) else str_nat (nat i))"

subsection \<open>Time: naive and aware datetimes, zones\<close>

text \<open>
  A naive \<^verbatim>\<open>datetime\<close> is its wall-clock reading, counted in microseconds on the
  proleptic Gregorian time line; an aware one carries its UTC offset as well. The
  year range 1..9999 of \<^verbatim>\<open>datetime\<close> is not modelled. A zone (\<^verbatim>\<open>pytz\<close>) gives the
  offset in force at a UTC instant (\<^verbatim>\<open>fromutc\<close>) and the offset it picks for a
  wall-clock reading (\<^verbatim>\<open>localize\<close>); the zone table itself is not part of the
  sources, so the configured zone \<^verbatim>\<open>IST\<close> is an argument.
\<close>

type_synonym naive_datetime = int

record aware_datetime =
  wall_clock :: int
  utcoffset :: int

record tzinfo =
  utcoffset_at_utc :: "int \<Rightarrow> int"
  utcoffset_at_wall :: "int \<Rightarrow> int"

datatype pydatetime = Naive naive_datetime | Aware aware_datetime

definition fixed_offset :: "int \<Rightarrow> tzinfo" where
  "fixed_offset off = \<lparr>utcoffset_at_utc = (\<lambda>_. off), utcoffset_at_wall = (\<lambda>_. off)\<rparr>"

definition UTC :: tzinfo where
  "UTC = fixed_offset 0"

text \<open>Asia/Kolkata as it has been since 1945: five and a half hours ahead of UTC.\<close>

definition Asia_Kolkata :: tzinfo where
  "Asia_Kolkata = fixed_offset 19800000000"

definition localize :: "tzinfo \<Rightarrow> naive_datetime \<Rightarrow> aware_datetime" where
  "localize tz w = \<lparr>wall_clock = w, utcoffset = utcoffset_at_wall tz w\<rparr>"

definition instant :: "aware_datetime \<Rightarrow> int" where
  "instant dt = wall_clock dt - utcoffset dt"

definition astimezone :: "aware_datetime \<Rightarrow> tzinfo \<Rightarrow> aware_datetime" where
  "astimezone dt tz =
     (let u = instant dt; off = utcoffset_at_utc tz u
      in \<lparr>wall_clock = u + off, utcoffset = off\<rparr>)"

datatype py_error = ValueError

text \<open>\<^verbatim>\<open>app/utils/timezone.py\<close>\<close>

definition datetime_to_ist :: "tzinfo \<Rightarrow> pydatetime \<Rightarrow> aware_datetime" where
  "datetime_to_ist IST dt =
     astimezone (case dt of Naive w \<Rightarrow> localize UTC w | Aware a \<Rightarrow> a) IST"

definition ist_to_utc :: "tzinfo \<Rightarrow> pydatetime \<Rightarrow> aware_datetime" where
  "ist_to_utc IST dt =
     astimezone (case dt of Naive w \<Rightarrow> localize IST w | Aware a \<Rightarrow> a) UTC"

text \<open>
  \<^verbatim>\<open>datetime.fromisoformat\<close> belongs to the standard library: it is the argument
  \<open>fromisoformat\<close>, which raises \<^verbatim>\<open>ValueError\<close> on a string that is not well formed.
\<close>

definition parse_ist_string ::
  "(string \<Rightarrow> py_error + pydatetime) \<Rightarrow> tzinfo \<Rightarrow> string \<Rightarrow> py_error + aware_datetime" where
  "parse_ist_string fromisoformat IST dt_string =
     (case fromisoformat (replace CHR ''Z'' ''+00:00'' dt_string) of
        Inl e \<Rightarrow> Inl e
      | Inr dt \<Rightarrow>
          Inr (astimezone (case dt of Naive w \<Rightarrow> localize IST w | Aware a \<Rightarrow> a) UTC))"

subsection \<open>The tables (\<^verbatim>\<open>app/models.py\<close>) and the request body (\<^verbatim>\<open>app/schemas.py\<close>)\<close>

record FitnessClass =
  fc_id :: int
  name :: string
  instructor :: string
  datetime_utc :: naive_datetime
  total_slots :: int

text \<open>
  \<^verbatim>\<open>BookingCreate\<close> is the body of \<^verbatim>\<open>POST /book\<close> after validation: the handler is
  called with a value that \<open>BookingCreate_validate\<close> below has built, whose
  \<open>client_email\<close> has passed \<^verbatim>\<open>EmailStr\<close>.
\<close>

record BookingCreate =
  class_id :: int
  client_name :: string
  client_email :: string

text \<open>The body as it is sent, before validation.\<close>

record BookingBody =
  body_class_id :: int
  body_client_name :: string
  body_client_email :: string

text \<open>A row of \<^verbatim>\<open>bookings\<close> is \<^verbatim>\<open>Booking(**booking.model_dump())\<close> with its key and timestamp.\<close>

record Booking = BookingCreate +
  bk_id :: int
  booked_at :: naive_datetime

record db =
  fitness_classes :: "FitnessClass list"
  bookings :: "Booking list"

text \<open>The relationship \<^verbatim>\<open>FitnessClass.bookings\<close>: the rows whose foreign key is this class.\<close>

definition class_bookings :: "db \<Rightarrow> FitnessClass \<Rightarrow> Booking list" where
  "class_bookings s c = filter (\<lambda>b. class_id b = fc_id c) (bookings s)"

definition available_slots :: "db \<Rightarrow> FitnessClass \<Rightarrow> int" where
  "available_slots s c = total_slots c - int (length (class_bookings s c))"

definition datetime_ist :: "tzinfo \<Rightarrow> FitnessClass \<Rightarrow> aware_datetime" where
  "datetime_ist IST c = astimezone (localize UTC (datetime_utc c)) IST"

definition booked_at_ist :: "tzinfo \<Rightarrow> Booking \<Rightarrow> aware_datetime" where
  "booked_at_ist IST b = astimezone (localize UTC (booked_at b)) IST"

subsection \<open>Queries and the insert (\<^verbatim>\<open>app/crud.py\<close>)\<close>

text \<open>
  \<^verbatim>\<open>ORDER BY\<close> is a stable sort on the key, \<^verbatim>\<open>OFFSET\<close> drops rows and \<^verbatim>\<open>LIMIT\<close> keeps a
  prefix. SQLite reads a negative \<^verbatim>\<open>OFFSET\<close> as zero and a negative \<^verbatim>\<open>LIMIT\<close> as no
  limit.
\<close>

definition sql_offset :: "int \<Rightarrow> 'a list \<Rightarrow> 'a list" where
  "sql_offset n xs = drop (nat n) xs"

definition sql_limit :: "int \<Rightarrow> 'a list \<Rightarrow> 'a list" where
  "sql_limit n xs = (if n < 0 then xs else take (nat n) xs)"

definition get_upcoming_classes :: "db \<Rightarrow> naive_datetime \<Rightarrow> int \<Rightarrow> int \<Rightarrow> FitnessClass list" where
  "get_upcoming_classes s current_time_utc skip limit =
     sql_limit limit (sql_offset skip
       (sort_key datetime_utc
         (filter (\<lambda>c. datetime_utc c > current_time_utc) (fitness_classes s))))"

definition get_class_by_id :: "db \<Rightarrow> int \<Rightarrow> FitnessClass option" where
  "get_class_by_id s cid = find (\<lambda>c. fc_id c = cid) (fitness_classes s)"

text \<open>The key SQLite gives a new row: one more than the largest key in the table.\<close>

definition next_id :: "Booking list \<Rightarrow> int" where
  "next_id bs = (case bs of [] \<Rightarrow> 1 | b # bs' \<Rightarrow> fold max (map bk_id bs') (bk_id b) + 1)"

definition crud_create_booking :: "db \<Rightarrow> naive_datetime \<Rightarrow> BookingCreate \<Rightarrow> Booking \<times> db" where
  "crud_create_booking s utcnow booking =
     (let db_booking = \<lparr>class_id = class_id booking, client_name = client_name booking,
                         client_email = client_email booking,
                         bk_id = next_id (bookings s), booked_at = utcnow\<rparr>
      in (db_booking, s\<lparr>bookings := bookings s @ [db_booking]\<rparr>))"

definition get_bookings_by_email :: "db \<Rightarrow> string \<Rightarrow> Booking list" where
  "get_bookings_by_email s email =
     sort_key (\<lambda>b. - booked_at b) (filter (\<lambda>b. client_email b = email) (bookings s))"

definition check_existing_booking :: "db \<Rightarrow> int \<Rightarrow> string \<Rightarrow> bool" where
  "check_existing_booking s cid email =
     (find (\<lambda>b. class_id b = cid \<and> client_email b = email) (bookings s) \<noteq> None)"

subsection \<open>Errors and responses\<close>

text \<open>
  A value of a \<^verbatim>\<open>detail\<close> dictionary is a string or a datetime rendered by
  \<^verbatim>\<open>isoformat()\<close>, which is kept as the datetime. A request that FastAPI rejects before
  the handler runs raises \<^verbatim>\<open>RequestValidationError\<close>, which \<^verbatim>\<open>app/main.py\<close> answers
  with status 422.
\<close>

datatype detail_value = Str string | IsoFormat aware_datetime

datatype detail = Message string | Fields "(string \<times> detail_value) list"

datatype http_error = HTTPException int detail | RequestValidationError

fun status_code :: "http_error \<Rightarrow> int" where
  "status_code (HTTPException code _) = code"
| "status_code RequestValidationError = 422"

record FitnessClassResponse =
  r_id :: int
  r_name :: string
  r_instructor :: string
  r_datetime_ist :: aware_datetime
  r_available_slots :: int
  r_total_slots :: int

record BookingResponse =
  br_id :: int
  br_class_id :: int
  br_client_name :: string
  br_client_email :: string
  br_booked_at_ist :: aware_datetime
  br_fitness_class :: FitnessClassResponse

record ClassListResponse =
  cl_total :: int
  cl_classes :: "FitnessClassResponse list"

record BookingListResponse =
  bl_total :: int
  bl_bookings :: "BookingResponse list"

definition to_FitnessClassResponse :: "tzinfo \<Rightarrow> db \<Rightarrow> FitnessClass \<Rightarrow> FitnessClassResponse" where
  "to_FitnessClassResponse IST s c =
     \<lparr>r_id = fc_id c, r_name = name c, r_instructor = instructor c,
      r_datetime_ist = datetime_ist IST c, r_available_slots = available_slots s c,
      r_total_slots = total_slots c\<rparr>"

text \<open>
  \<^verbatim>\<open>Booking.fitness_class\<close> is the class the foreign key points to; when there is none the
  required field \<^verbatim>\<open>fitness_class\<close> of the response cannot be filled and validation fails.
\<close>

definition to_BookingResponse :: "tzinfo \<Rightarrow> db \<Rightarrow> Booking \<Rightarrow> BookingResponse option" where
  "to_BookingResponse IST s b =
     (case get_class_by_id s (class_id b) of
        None \<Rightarrow> None
      | Some c \<Rightarrow>
          Some \<lparr>br_id = bk_id b, br_class_id = class_id b, br_client_name = client_name b,
                br_client_email = client_email b, br_booked_at_ist = booked_at_ist IST b,
                br_fitness_class = to_FitnessClassResponse IST s c\<rparr>)"

subsection \<open>Validation of the request body (\<^verbatim>\<open>app/schemas.py\<close>)\<close>

text \<open>
  \<^verbatim>\<open>client_email: EmailStr\<close>: pydantic strips the value and hands it to the
  \<^verbatim>\<open>email_validator\<close> library, which raises or returns the normalised address. That
  library is not part of the sources, so its check of a stripped value is the argument
  \<open>validate_email\<close>. \<^verbatim>\<open>client_name\<close> has \<^verbatim>\<open>min_length=1\<close> and \<^verbatim>\<open>max_length=100\<close>. A body that
  fails is answered with \<^verbatim>\<open>RequestValidationError\<close> before the handler runs.
\<close>

definition EmailStr :: "(string \<Rightarrow> py_error + string) \<Rightarrow> string \<Rightarrow> http_error + string" where
  "EmailStr validate_email v =
     (case validate_email (strip v) of
        Inl _ \<Rightarrow> Inl RequestValidationError
      | Inr normalized \<Rightarrow> Inr normalized)"

definition BookingCreate_validate ::
  "(string \<Rightarrow> py_error + string) \<Rightarrow> BookingBody \<Rightarrow> http_error + BookingCreate" where
  "BookingCreate_validate validate_email body =
     (if length (body_client_name body) < 1 \<or> 100 < length (body_client_name body)
      then Inl RequestValidationError
      else case EmailStr validate_email (body_client_email body) of
             Inl e \<Rightarrow> Inl e
           | Inr email \<Rightarrow>
               Inr \<lparr>class_id = body_class_id body, client_name = body_client_name body,
                    client_email = email\<rparr>)"

subsection \<open>Dependencies (\<^verbatim>\<open>app/api/dependencies.py\<close>)\<close>

text \<open>A query parameter that the request does not carry is \<open>None\<close>.\<close>

definition get_pagination_params :: "int option \<Rightarrow> int option \<Rightarrow> http_error + int \<times> int" where
  "get_pagination_params skip_q limit_q =
     (let skip = (case skip_q of None \<Rightarrow> 0 | Some k \<Rightarrow> k);
          limit = (case limit_q of None \<Rightarrow> 10 | Some l \<Rightarrow> l)
      in if skip < 0 \<or> limit < 1 \<or> 100 < limit then Inl RequestValidationError
         else Inr (skip, limit))"

definition validate_email_query :: "string option \<Rightarrow> http_error + string" where
  "validate_email_query email_q =
     (case email_q of
        None \<Rightarrow> Inl RequestValidationError
      | Some email \<Rightarrow>
          if email = [] \<or> length (strip email) = 0
          then Inl (HTTPException 400 (Message ''Email parameter is required and cannot be empty''))
          else Inr (lower (strip email)))"

subsection \<open>Routes (\<^verbatim>\<open>app/api/routes.py\<close>)\<close>

definition get_classes ::
  "tzinfo \<Rightarrow> db \<Rightarrow> naive_datetime \<Rightarrow> int option \<Rightarrow> int option \<Rightarrow> http_error + ClassListResponse" where
  "get_classes IST s utcnow skip_q limit_q =
     (case get_pagination_params skip_q limit_q of
        Inl e \<Rightarrow> Inl e
      | Inr (skip, limit) \<Rightarrow>
          (let classes = get_upcoming_classes s utcnow skip limit
           in Inr \<lparr>cl_total = int (length classes),
                   cl_classes = map (to_FitnessClassResponse IST s) classes\<rparr>))"

text \<open>
  The handler of \<^verbatim>\<open>POST /book\<close>. \<open>utcnow\<close> is the clock reading of step 2 and
  \<open>insert_time\<close> the later one that fills \<^verbatim>\<open>booked_at\<close>. The result is the new row
  (or the error) and the store after the call.
\<close>

definition create_booking ::
  "tzinfo \<Rightarrow> db \<Rightarrow> naive_datetime \<Rightarrow> naive_datetime \<Rightarrow> BookingCreate \<Rightarrow> (http_error + Booking) \<times> db" where
  "create_booking IST s utcnow insert_time booking_data =
     (case get_class_by_id s (class_id booking_data) of
        None \<Rightarrow>
          (Inl (HTTPException 404
             (Message (''Class with ID '' @ str_int (class_id booking_data) @ '' not found''))), s)
      | Some fitness_class \<Rightarrow>
          if datetime_utc fitness_class < utcnow
          then (Inl (HTTPException 400
                  (Message ''Cannot book a class that has already started or ended'')), s)
          else if available_slots s fitness_class \<le> 0
          then (Inl (HTTPException 409
                  (Fields [(''error'', Str ''Class is fully booked''),
                           (''class_name'', Str (name fitness_class)),
                           (''datetime'', IsoFormat (datetime_ist IST fitness_class))])), s)
          else
            (let email_normalized = lower (client_email booking_data)
             in if check_existing_booking s (class_id booking_data) email_normalized
                then (Inl (HTTPException 409
                        (Fields [(''error'', Str ''You have already booked this class''),
                                 (''class_name'', Str (name fitness_class)),
                                 (''client_email'', Str email_normalized)])), s)
                else
                  (case crud_create_booking s insert_time
                          (booking_data\<lparr>client_email := email_normalized\<rparr>) of
                     (new_booking, s') \<Rightarrow> (Inr new_booking, s'))))"

text \<open>\<^verbatim>\<open>POST /book\<close> as a client sees it: the body is validated, then the handler runs.\<close>

definition post_book ::
  "(string \<Rightarrow> py_error + string) \<Rightarrow> tzinfo \<Rightarrow> db \<Rightarrow> naive_datetime \<Rightarrow> naive_datetime \<Rightarrow>
   BookingBody \<Rightarrow> (http_error + Booking) \<times> db" where
  "post_book validate_email IST s utcnow insert_time body =
     (case BookingCreate_validate validate_email body of
        Inl e \<Rightarrow> (Inl e, s)
      | Inr booking_data \<Rightarrow> create_booking IST s utcnow insert_time booking_data)"

text \<open>The row that \<^verbatim>\<open>POST /book\<close> stores for a request it accepts.\<close>

definition new_row :: "db \<Rightarrow> naive_datetime \<Rightarrow> BookingCreate \<Rightarrow> Booking" where
  "new_row s t req =
     \<lparr>class_id = class_id req, client_name = client_name req,
      client_email = lower (client_email req), bk_id = next_id (bookings s), booked_at = t\<rparr>"

definition get_bookings :: "tzinfo \<Rightarrow> db \<Rightarrow> string option \<Rightarrow> http_error + BookingListResponse" where
  "get_bookings IST s email_q =
     (case validate_email_query email_q of
        Inl e \<Rightarrow> Inl e
      | Inr email \<Rightarrow>
          (let email_normalized = lower email;
               bookings = get_bookings_by_email s email_normalized
           in case those (map (to_BookingResponse IST s) bookings) of
                None \<Rightarrow>
                  Inl (HTTPException 500 (Message ''An error occurred while fetching bookings''))
              | Some items \<Rightarrow>
                  Inr \<lparr>bl_total = int (length bookings), bl_bookings = items\<rparr>))"

subsection \<open>Sequential runs of the booking workflow\<close>

type_synonym booking_request = "naive_datetime \<times> naive_datetime \<times> BookingCreate"

fun run_bookings :: "tzinfo \<Rightarrow> db \<Rightarrow> booking_request list \<Rightarrow> db" where
  "run_bookings IST s [] = s"
| "run_bookings IST s ((utcnow, insert_time, booking_data) # rs) =
     run_bookings IST (snd (create_booking IST s utcnow insert_time booking_data)) rs"

text \<open>The primary key of \<^verbatim>\<open>fitness_classes\<close>.\<close>

definition primary_key_ok :: "db \<Rightarrow> bool" where
  "primary_key_ok s = distinct (map fc_id (fitness_classes s))"

definition capacity_ok :: "db \<Rightarrow> bool" where
  "capacity_ok s =
     list_all (\<lambda>c. int (length (class_bookings s c)) \<le> total_slots c) (fitness_classes s)"

definition no_duplicate_bookings :: "db \<Rightarrow> bool" where
  "no_duplicate_bookings s = distinct (map (\<lambda>b. (class_id b, client_email b)) (bookings s))"


subsection \<open>A small store\<close>

text \<open>
  The two classes of the test suite (\<^verbatim>\<open>tests/test_api.py\<close>, \<^verbatim>\<open>sample_classes\<close>): one
  with ten slots and one with a single slot.
\<close>

definition test_yoga :: FitnessClass where
  "test_yoga = \<lparr>fc_id = 1, name = ''Test Yoga'', instructor = ''Test Instructor'',
                 datetime_utc = 1000, total_slots = 10\<rparr>"

definition test_hiit :: FitnessClass where
  "test_hiit = \<lparr>fc_id = 2, name = ''Test HIIT'', instructor = ''Test Trainer'',
                 datetime_utc = 2000, total_slots = 1\<rparr>"

definition sample_db :: db where
  "sample_db = \<lparr>fitness_classes = [test_yoga, test_hiit], bookings = []\<rparr>"

definition sample_request :: "int \<Rightarrow> string \<Rightarrow> BookingCreate" where
  "sample_request cid email = \<lparr>class_id = cid, client_name = ''John Doe'', client_email = email\<rparr>"

text \<open>Two requests, one after the other, for the class with a single slot.\<close>

definition full_class_requests :: "booking_request list" where
  "full_class_requests =
     [(500, 501, sample_request 2 ''first@example.com''),
      (502, 503, sample_request 2 ''second@example.com'')]"

text \<open>The same client twice for the class with ten slots, in different letter case.\<close>

definition duplicate_requests :: "booking_request list" where
  "duplicate_requests =
     [(500, 501, sample_request 1 ''John@Example.com''),
      (502, 503, sample_request 1 ''john@example.COM'')]"

definition john_row :: Booking where
  "john_row = \<lparr>class_id = 1, client_name = ''John Doe'', client_email = ''john@example.com'',
                bk_id = 1, booked_at = 501\<rparr>"

text \<open>The row stored for a booking of class 1 under the email \<^verbatim>\<open>A@B.com\<close>.\<close>

definition ab_row :: Booking where
  "ab_row = \<lparr>class_id = 1, client_name = ''John Doe'', client_email = ''a@b.com'',
              bk_id = 1, booked_at = 501\<rparr>"

text \<open>
  A stand-in for \<^verbatim>\<open>datetime.fromisoformat\<close> that knows three spellings of one instant,
  2025-01-01 10:00 UTC, and raises on everything else. Wall-clock readings count
  microseconds from 0001-01-01 00:00.
\<close>

definition known_fromisoformat :: "string \<Rightarrow> py_error + pydatetime" where
  "known_fromisoformat text =
     (if text = ''2025-01-01T10:00:00+00:00''
      then Inr (Aware \<lparr>wall_clock = 63871322400000000, utcoffset = 0\<rparr>)
      else if text = ''2025-01-01T15:30:00+05:30''
      then Inr (Aware \<lparr>wall_clock = 63871342200000000, utcoffset = 19800000000\<rparr>)
      else if text = ''2025-01-01T15:30:00''
      then Inr (Naive 63871342200000000)
      else Inl ValueError)"

text \<open>
  A stand-in for the \<^verbatim>\<open>email_validator\<close> library that knows two addresses and raises on
  everything else; as the library does, it puts the domain in lower case and keeps the
  local part.
\<close>

definition known_validate_email :: "string \<Rightarrow> py_error + string" where
  "known_validate_email address =
     (if address = ''A@B.com'' then Inr ''A@b.com''
      else if address = ''john@example.com'' then Inr ''john@example.com''
      else Inl ValueError)"

definition padded_body :: BookingBody where
  "padded_body = \<lparr>body_class_id = 1, body_client_name = ''John Doe'',
                   body_client_email = '' A@B.com ''\<rparr>"

subsection \<open>Evaluation on literals\<close>

text \<open>
  Rule sets for the simplifier that run the string operations, the time conversions and
  the queries on the sample store.
\<close>

lemma str_nat_digit: "n < 10 \<Longrightarrow> str_nat n = [''0123456789'' ! n]"
  by (simp add: str_nat.simps)

lemma str_nat_more:
  "\<not> n < 10 \<Longrightarrow> str_nat n = str_nat (n div 10) @ [''0123456789'' ! (n mod 10)]"
  by (subst str_nat.simps) simp

lemmas string_eval =
  lower_def lower_char_def char_of_def bit_Suc_0_iff isspace_def strip_def lstrip_def rstrip_def
  replace_def str_int_def str_nat_digit str_nat_more

lemmas time_eval =
  datetime_ist_def booked_at_ist_def astimezone_def localize_def instant_def UTC_def
  Asia_Kolkata_def fixed_offset_def

lemmas store_eval =
  sample_db_def test_yoga_def test_hiit_def sample_request_def get_class_by_id_def
  available_slots_def class_bookings_def check_existing_booking_def new_row_def next_id_def
  create_booking_def crud_create_booking_def Let_def

subsection \<open>Facts about the string operations\<close>

lemma lower_char_idem: "lower_char (lower_char c) = lower_char c"
  by (cases c) (auto simp: lower_char_def Let_def)

lemma isspace_lower_char: "isspace (lower_char c) = isspace c"
  by (auto simp: lower_char_def isspace_def Let_def)

lemma lower_idem: "lower (lower s) = lower s"
  by (simp add: lower_def lower_char_idem)

lemma lower_Nil_iff: "lower s = [] \<longleftrightarrow> s = []"
  by (simp add: lower_def)

lemma lstrip_lower: "lstrip (lower s) = lower (lstrip s)"
  by (induction s) (simp_all add: lstrip_def lower_def isspace_lower_char)

lemma rstrip_lower: "rstrip (lower s) = lower (rstrip s)"
proof -
  have "dropWhile isspace (map lower_char xs) = map lower_char (dropWhile isspace xs)" for xs
    by (induction xs) (simp_all add: isspace_lower_char)
  then show ?thesis
    by (simp add: rstrip_def lower_def rev_map)
qed

lemma strip_lower: "strip (lower s) = lower (strip s)"
  by (simp add: strip_def lstrip_lower rstrip_lower)

lemma lstrip_spaces_append: "list_all isspace ws \<Longrightarrow> lstrip (ws @ s) = lstrip s"
  by (induction ws) (simp_all add: lstrip_def)

lemma rstrip_append_spaces: "list_all isspace ws \<Longrightarrow> rstrip (s @ ws) = rstrip s"
proof -
  assume "list_all isspace ws"
  then have "list_all isspace (rev ws)"
    by (simp add: list_all_iff)
  then have "dropWhile isspace (rev ws @ rev s) = dropWhile isspace (rev s)"
    by (induction "rev ws" arbitrary: ws) (simp_all add: lstrip_spaces_append [unfolded lstrip_def])
  then show ?thesis
    by (simp add: rstrip_def)
qed

lemma rstrip_all_spaces: "list_all isspace s \<Longrightarrow> rstrip s = []"
  using rstrip_append_spaces [of s "[]"] by (simp add: rstrip_def)

lemma lstrip_rstrip_commute: "lstrip (rstrip s) = rstrip (lstrip s)"
proof (induction s)
  case Nil
  show ?case by (simp add: lstrip_def rstrip_def)
next
  case (Cons c s)
  show ?case
  proof (cases "isspace c")
    case True
    have "rstrip (c # s) = (if list_all isspace s then [] else c # rstrip s)"
      using True by (auto simp: rstrip_def dropWhile_append list_all_iff)
    with True Cons show ?thesis
      by (auto simp: lstrip_def rstrip_all_spaces dropWhile_eq_Nil_conv list_all_iff)
  next
    case False
    then have "rstrip (c # s) = c # rstrip s"
      by (auto simp: rstrip_def dropWhile_append)
    with False show ?thesis by (simp add: lstrip_def)
  qed
qed

lemma strip_padded:
  assumes "list_all isspace ws1" and "list_all isspace ws2"
  shows "strip (ws1 @ e @ ws2) = strip e"
proof -
  have "strip (ws1 @ e @ ws2) = rstrip (lstrip (e @ ws2))"
    using assms(1) by (simp add: strip_def lstrip_spaces_append)
  also have "\<dots> = lstrip (rstrip (e @ ws2))"
    by (simp add: lstrip_rstrip_commute)
  also have "\<dots> = lstrip (rstrip e)"
    using assms(2) by (simp add: rstrip_append_spaces)
  finally show ?thesis
    by (simp add: strip_def lstrip_rstrip_commute)
qed

lemma lstrip_idem: "lstrip (lstrip s) = lstrip s"
  by (induction s) (simp_all add: lstrip_def)

lemma rstrip_idem: "rstrip (rstrip s) = rstrip s"
proof -
  have "dropWhile isspace (dropWhile isspace xs) = dropWhile isspace xs" for xs
    by (induction xs) simp_all
  then show ?thesis by (simp add: rstrip_def)
qed

lemma strip_idem: "strip (strip s) = strip s"
proof -
  have "strip (strip s) = rstrip (rstrip (lstrip (lstrip s)))"
    by (simp add: strip_def lstrip_rstrip_commute)
  then show ?thesis
    by (simp add: strip_def lstrip_idem rstrip_idem)
qed

subsection \<open>The booking workflow, step by step\<close>

lemma create_booking_not_found:
  "get_class_by_id s (class_id req) = None \<Longrightarrow>
   create_booking IST s now t req =
     (Inl (HTTPException 404 (Message (''Class with ID '' @ str_int (class_id req) @ '' not found''))), s)"
  by (simp add: create_booking_def)

lemma create_booking_started:
  "get_class_by_id s (class_id req) = Some c \<Longrightarrow> datetime_utc c < now \<Longrightarrow>
   create_booking IST s now t req =
     (Inl (HTTPException 400 (Message ''Cannot book a class that has already started or ended'')), s)"
  by (simp add: create_booking_def)

lemma create_booking_full:
  "get_class_by_id s (class_id req) = Some c \<Longrightarrow> \<not> datetime_utc c < now \<Longrightarrow>
   available_slots s c \<le> 0 \<Longrightarrow>
   create_booking IST s now t req =
     (Inl (HTTPException 409
        (Fields [(''error'', Str ''Class is fully booked''), (''class_name'', Str (name c)),
                 (''datetime'', IsoFormat (datetime_ist IST c))])), s)"
  by (simp add: create_booking_def)

lemma create_booking_duplicate:
  "get_class_by_id s (class_id req) = Some c \<Longrightarrow> \<not> datetime_utc c < now \<Longrightarrow>
   \<not> available_slots s c \<le> 0 \<Longrightarrow>
   check_existing_booking s (class_id req) (lower (client_email req)) \<Longrightarrow>
   create_booking IST s now t req =
     (Inl (HTTPException 409
        (Fields [(''error'', Str ''You have already booked this class''),
                 (''class_name'', Str (name c)),
                 (''client_email'', Str (lower (client_email req)))])), s)"
  by (simp add: create_booking_def)

lemma create_booking_inserts:
  "get_class_by_id s (class_id req) = Some c \<Longrightarrow> \<not> datetime_utc c < now \<Longrightarrow>
   \<not> available_slots s c \<le> 0 \<Longrightarrow>
   \<not> check_existing_booking s (class_id req) (lower (client_email req)) \<Longrightarrow>
   create_booking IST s now t req =
     (Inr (new_row s t req), s\<lparr>bookings := bookings s @ [new_row s t req]\<rparr>)"
  by (simp add: create_booking_def crud_create_booking_def new_row_def Let_def)

text \<open>The five outcomes are all there are.\<close>

lemma create_booking_cases:
  obtains
    (not_found) "get_class_by_id s (class_id req) = None"
  | (started) c where "get_class_by_id s (class_id req) = Some c" "datetime_utc c < now"
  | (full) c where "get_class_by_id s (class_id req) = Some c" "\<not> datetime_utc c < now"
      "available_slots s c \<le> 0"
  | (duplicate) c where "get_class_by_id s (class_id req) = Some c" "\<not> datetime_utc c < now"
      "\<not> available_slots s c \<le> 0"
      "check_existing_booking s (class_id req) (lower (client_email req))"
  | (inserted) c where "get_class_by_id s (class_id req) = Some c" "\<not> datetime_utc c < now"
      "\<not> available_slots s c \<le> 0"
      "\<not> check_existing_booking s (class_id req) (lower (client_email req))"
  by (cases "get_class_by_id s (class_id req)") auto

lemma create_booking_error_keeps_store:
  assumes "create_booking IST s now t req = (Inl err, s')"
  shows "s' = s"
proof (cases rule: create_booking_cases [where s = s and req = req and now = now])
  case not_found
  with assms show ?thesis by (simp add: create_booking_not_found)
next
  case (started c)
  with assms show ?thesis by (simp add: create_booking_started)
next
  case (full c)
  with assms show ?thesis by (simp add: create_booking_full)
next
  case (duplicate c)
  with assms show ?thesis by (simp add: create_booking_duplicate)
next
  case (inserted c)
  with assms show ?thesis by (simp add: create_booking_inserts)
qed

lemma create_booking_success:
  assumes "create_booking IST s now t req = (Inr b, s')"
  shows "b = new_row s t req \<and> s' = s\<lparr>bookings := bookings s @ [b]\<rparr> \<and>
         (\<exists>c. get_class_by_id s (class_id req) = Some c \<and> \<not> datetime_utc c < now \<and>
              0 < available_slots s c) \<and>
         \<not> check_existing_booking s (class_id req) (lower (client_email req))"
proof (cases rule: create_booking_cases [where s = s and req = req and now = now])
  case not_found
  with assms show ?thesis by (simp add: create_booking_not_found)
next
  case (started c)
  with assms show ?thesis by (simp add: create_booking_started)
next
  case (full c)
  with assms show ?thesis by (simp add: create_booking_full)
next
  case (duplicate c)
  with assms show ?thesis by (simp add: create_booking_duplicate)
next
  case (inserted c)
  with assms show ?thesis by (auto simp: create_booking_inserts)
qed

lemma fitness_classes_create_booking:
  "fitness_classes (snd (create_booking IST s now t req)) = fitness_classes s"
proof (cases "create_booking IST s now t req")
  case (Pair r s')
  then show ?thesis
    by (cases r) (auto dest: create_booking_error_keeps_store create_booking_success)
qed

text \<open>
  C3. Atomicity of the booking workflow: a request that fails (class not found, class
  already started, fully booked, duplicate) leaves the store as it was, and each of the
  four conditions does make the request fail.
\<close>

theorem create_booking_atomic:
  "(create_booking IST s now t req = (Inl err, s') \<longrightarrow> s' = s) \<and>
   (get_class_by_id s (class_id req) = None \<or>
    (\<exists>c. get_class_by_id s (class_id req) = Some c \<and>
         (datetime_utc c < now \<or> available_slots s c \<le> 0 \<or>
          check_existing_booking s (class_id req) (lower (client_email req))))
    \<longrightarrow> (\<exists>e. create_booking IST s now t req = (Inl e, s)))"
proof (intro conjI impI)
  assume "create_booking IST s now t req = (Inl err, s')"
  then show "s' = s" by (rule create_booking_error_keeps_store)
next
  assume fails: "get_class_by_id s (class_id req) = None \<or>
    (\<exists>c. get_class_by_id s (class_id req) = Some c \<and>
         (datetime_utc c < now \<or> available_slots s c \<le> 0 \<or>
          check_existing_booking s (class_id req) (lower (client_email req))))"
  show "\<exists>e. create_booking IST s now t req = (Inl e, s)"
  proof (cases rule: create_booking_cases [where s = s and req = req and now = now])
    case not_found
    then show ?thesis by (simp add: create_booking_not_found)
  next
    case (started c)
    then show ?thesis by (simp add: create_booking_started)
  next
    case (full c)
    then show ?thesis by (simp add: create_booking_full)
  next
    case (duplicate c)
    then show ?thesis by (simp add: create_booking_duplicate)
  next
    case (inserted c)
    with fails show ?thesis by auto
  qed
qed

theorem create_booking_atomic_witness:
  "create_booking Asia_Kolkata sample_db 500 501 (sample_request 9999 ''john@example.com'') =
     (Inl (HTTPException 404 (Message ''Class with ID 9999 not found'')), sample_db) \<and>
   get_class_by_id sample_db (class_id (sample_request 9999 ''john@example.com'')) = None"
proof -
  have run: "create_booking Asia_Kolkata sample_db 500 501 (sample_request 9999 ''john@example.com'') =
     (Inl (HTTPException 404 (Message ''Class with ID 9999 not found'')), sample_db)"
    by (simp add: store_eval string_eval)
  have absent: "get_class_by_id sample_db (class_id (sample_request 9999 ''john@example.com'')) = None"
    by (simp add: store_eval)
  from create_booking_atomic [of Asia_Kolkata sample_db 500 501 "sample_request 9999 ''john@example.com''"
      "HTTPException 404 (Message ''Class with ID 9999 not found'')" sample_db] run absent
  show ?thesis by simp
qed

subsection \<open>The capacity invariant\<close>

lemma get_class_by_id_SomeD:
  "get_class_by_id s cid = Some c \<Longrightarrow> c \<in> set (fitness_classes s) \<and> fc_id c = cid"
  by (auto simp: get_class_by_id_def find_Some_iff)

lemma primary_key_unique:
  assumes "primary_key_ok s" and "c \<in> set (fitness_classes s)" and "c' \<in> set (fitness_classes s)"
    and "fc_id c = fc_id c'"
  shows "c = c'"
  using assms by (auto simp: primary_key_ok_def distinct_map dest: inj_onD)

lemma class_bookings_insert:
  "class_bookings (s\<lparr>bookings := bookings s @ [b]\<rparr>) c =
     class_bookings s c @ (if class_id b = fc_id c then [b] else [])"
  by (simp add: class_bookings_def)

lemma create_booking_capacity_ok:
  assumes pk: "primary_key_ok s" and inv: "capacity_ok s"
  shows "capacity_ok (snd (create_booking IST s now t req))"
proof (cases "create_booking IST s now t req")
  case (Pair r s')
  show ?thesis
  proof (cases r)
    case (Inl err)
    with Pair have "s' = s" by (auto dest: create_booking_error_keeps_store)
    with Pair inv show ?thesis by simp
  next
    case (Inr b)
    with Pair have ok: "create_booking IST s now t req = (Inr b, s')" by simp
    from create_booking_success [OF ok] obtain c0 where
      b: "b = new_row s t req" and s': "s' = s\<lparr>bookings := bookings s @ [b]\<rparr>" and
      c0: "get_class_by_id s (class_id req) = Some c0" and free: "0 < available_slots s c0"
      by blast
    have "int (length (class_bookings s' c)) \<le> total_slots c"
      if c: "c \<in> set (fitness_classes s)" for c
    proof (cases "fc_id c = class_id b")
      case True
      with c0 b have "fc_id c = fc_id c0" and "c0 \<in> set (fitness_classes s)"
        by (auto simp: new_row_def dest: get_class_by_id_SomeD)
      with pk c have "c = c0" by (auto intro: primary_key_unique)
      with free show ?thesis
        by (simp add: s' class_bookings_insert available_slots_def)
    next
      case False
      with inv c show ?thesis
        by (auto simp: s' class_bookings_insert capacity_ok_def list_all_iff)
    qed
    then have "capacity_ok s'"
      by (simp add: capacity_ok_def list_all_iff s')
    with Pair show ?thesis by simp
  qed
qed

lemma create_booking_primary_key_ok:
  "primary_key_ok s \<Longrightarrow> primary_key_ok (snd (create_booking IST s now t req))"
  by (simp add: primary_key_ok_def fitness_classes_create_booking)

lemma fitness_classes_run_bookings:
  "fitness_classes (run_bookings IST s reqs) = fitness_classes s"
  by (induction IST s reqs rule: run_bookings.induct) (simp_all add: fitness_classes_create_booking)

lemma run_bookings_capacity_ok:
  "primary_key_ok s \<Longrightarrow> capacity_ok s \<Longrightarrow> capacity_ok (run_bookings IST s reqs)"
proof (induction IST s reqs rule: run_bookings.induct)
  case (1 IST s)
  then show ?case by simp
next
  case (2 IST s utcnow insert_time booking_data rs)
  then show ?case
    by (simp add: create_booking_capacity_ok create_booking_primary_key_ok)
qed

text \<open>
  C1. Capacity invariant: in every state that sequential runs of the booking workflow
  reach from a store that satisfies it (whose class ids are a primary key), no class has
  more bookings than \<open>total_slots\<close>, that is, \<open>available_slots\<close> is never negative; and a
  request for a class without a free slot is refused and inserts nothing.
\<close>

theorem capacity_invariant:
  assumes "primary_key_ok s" and "capacity_ok s"
  shows "fitness_classes (run_bookings IST s reqs) = fitness_classes s \<and>
         (\<forall>c \<in> set (fitness_classes s).
            int (length (class_bookings (run_bookings IST s reqs) c)) \<le> total_slots c \<and>
            0 \<le> available_slots (run_bookings IST s reqs) c) \<and>
         (\<forall>c. get_class_by_id s (class_id req) = Some c \<and> available_slots s c \<le> 0 \<longrightarrow>
              (\<exists>err. create_booking IST s now t req = (Inl err, s)))"
proof (intro conjI ballI allI impI)
  show "fitness_classes (run_bookings IST s reqs) = fitness_classes s"
    by (rule fitness_classes_run_bookings)
next
  fix c assume c: "c \<in> set (fitness_classes s)"
  from assms have "capacity_ok (run_bookings IST s reqs)"
    by (rule run_bookings_capacity_ok)
  with c show le: "int (length (class_bookings (run_bookings IST s reqs) c)) \<le> total_slots c"
    by (simp add: capacity_ok_def list_all_iff fitness_classes_run_bookings)
  then show "0 \<le> available_slots (run_bookings IST s reqs) c"
    by (simp add: available_slots_def)
next
  fix c assume "get_class_by_id s (class_id req) = Some c \<and> available_slots s c \<le> 0"
  then show "\<exists>err. create_booking IST s now t req = (Inl err, s)"
    by (cases "datetime_utc c < now") (simp_all add: create_booking_started create_booking_full)
qed

theorem capacity_invariant_witness:
  "primary_key_ok sample_db \<and> capacity_ok sample_db \<and>
   int (length (class_bookings (run_bookings Asia_Kolkata sample_db full_class_requests) test_hiit))
     \<le> total_slots test_hiit \<and>
   0 \<le> available_slots (run_bookings Asia_Kolkata sample_db full_class_requests) test_hiit \<and>
   length (bookings (run_bookings Asia_Kolkata sample_db full_class_requests)) = 1"
proof -
  have pk: "primary_key_ok sample_db"
    by (simp add: primary_key_ok_def store_eval)
  have inv: "capacity_ok sample_db"
    by (simp add: capacity_ok_def store_eval)
  have mem: "test_hiit \<in> set (fitness_classes sample_db)"
    by (simp add: sample_db_def)
  have one: "length (bookings (run_bookings Asia_Kolkata sample_db full_class_requests)) = 1"
    by (simp add: full_class_requests_def store_eval string_eval)
  from capacity_invariant [OF pk inv, of Asia_Kolkata full_class_requests] mem
  have "int (length (class_bookings (run_bookings Asia_Kolkata sample_db full_class_requests) test_hiit))
          \<le> total_slots test_hiit \<and>
        0 \<le> available_slots (run_bookings Asia_Kolkata sample_db full_class_requests) test_hiit"
    by blast
  with pk inv one show ?thesis by simp
qed

subsection \<open>The duplicate invariant\<close>

lemma check_existing_booking_iff:
  "check_existing_booking s cid email \<longleftrightarrow>
     (cid, email) \<in> set (map (\<lambda>b. (class_id b, client_email b)) (bookings s))"
  by (auto simp: check_existing_booking_def find_None_iff)

lemma create_booking_no_duplicate:
  assumes inv: "no_duplicate_bookings s"
  shows "no_duplicate_bookings (snd (create_booking IST s now t req))"
proof (cases "create_booking IST s now t req")
  case (Pair r s')
  show ?thesis
  proof (cases r)
    case (Inl err)
    with Pair have "s' = s" by (auto dest: create_booking_error_keeps_store)
    with Pair inv show ?thesis by simp
  next
    case (Inr b)
    with Pair have ok: "create_booking IST s now t req = (Inr b, s')" by simp
    from create_booking_success [OF ok] have
      b: "b = new_row s t req" and s': "s' = s\<lparr>bookings := bookings s @ [b]\<rparr>" and
      fresh: "\<not> check_existing_booking s (class_id req) (lower (client_email req))"
      by blast+
    from b have "(class_id b, client_email b) = (class_id req, lower (client_email req))"
      by (simp add: new_row_def)
    with fresh inv have "no_duplicate_bookings s'"
      by (simp add: s' no_duplicate_bookings_def check_existing_booking_iff)
    with Pair show ?thesis by simp
  qed
qed

lemma run_bookings_no_duplicate:
  "no_duplicate_bookings s \<Longrightarrow> no_duplicate_bookings (run_bookings IST s reqs)"
  by (induction IST s reqs rule: run_bookings.induct) (simp_all add: create_booking_no_duplicate)

lemma distinct_keys_filter_le_1:
  "distinct (map f xs) \<Longrightarrow> length (filter (\<lambda>x. f x = k) xs) \<le> 1"
proof (induction xs)
  case Nil
  then show ?case by simp
next
  case (Cons x xs)
  from Cons.prems have "f x \<notin> f ` set xs" by simp
  then have "\<forall>y \<in> set xs. f y \<noteq> f x" by (metis imageI)
  then have "f x = k \<Longrightarrow> filter (\<lambda>y. f y = k) xs = []"
    by (simp add: filter_empty_conv)
  with Cons show ?case by auto
qed

lemma bookings_create_booking_mono:
  "set (bookings s) \<subseteq> set (bookings (snd (create_booking IST s now t req)))"
proof (cases "create_booking IST s now t req")
  case (Pair r s')
  then show ?thesis
    by (cases r) (auto dest: create_booking_error_keeps_store create_booking_success)
qed

lemma bookings_run_bookings_mono:
  "set (bookings s) \<subseteq> set (bookings (run_bookings IST s reqs))"
proof (induction IST s reqs rule: run_bookings.induct)
  case (1 IST s)
  show ?case by simp
next
  case (2 IST s utcnow insert_time booking_data rs)
  with bookings_create_booking_mono [of s IST utcnow insert_time booking_data]
  show ?case by auto
qed

lemma booked_pair_rejected:
  assumes "check_existing_booking s (class_id req) (lower (client_email req))"
  shows "\<exists>err. create_booking IST s now t req = (Inl err, s) \<and>
           (\<forall>c. get_class_by_id s (class_id req) = Some c \<and> \<not> datetime_utc c < now \<and>
                 0 < available_slots s c \<longrightarrow>
                 err = HTTPException 409
                   (Fields [(''error'', Str ''You have already booked this class''),
                            (''class_name'', Str (name c)),
                            (''client_email'', Str (lower (client_email req)))]))"
proof (cases rule: create_booking_cases [where s = s and req = req and now = now])
  case not_found
  then show ?thesis by (simp add: create_booking_not_found)
next
  case (started c)
  then show ?thesis by (simp add: create_booking_started)
next
  case (full c)
  then show ?thesis by (simp add: create_booking_full)
next
  case (duplicate c)
  then show ?thesis by (simp add: create_booking_duplicate)
next
  case (inserted c)
  with assms show ?thesis by simp
qed

text \<open>
  C2, as the claim states it, fails: a second attempt for the same pair is not always
  answered with "already booked". In the class with a single slot the first booking takes
  the slot, and the same request sent again is answered by the capacity gate.
\<close>

theorem second_attempt_full_class_counterexample:
  "create_booking Asia_Kolkata sample_db 500 501 (sample_request 2 ''john@example.com'') =
     (Inr \<lparr>class_id = 2, client_name = ''John Doe'', client_email = ''john@example.com'',
            bk_id = 1, booked_at = 501\<rparr>,
      sample_db\<lparr>bookings := [\<lparr>class_id = 2, client_name = ''John Doe'',
                                client_email = ''john@example.com'', bk_id = 1, booked_at = 501\<rparr>]\<rparr>) \<and>
   fst (create_booking Asia_Kolkata
          (sample_db\<lparr>bookings := [\<lparr>class_id = 2, client_name = ''John Doe'',
                                    client_email = ''john@example.com'', bk_id = 1, booked_at = 501\<rparr>]\<rparr>)
          502 503 (sample_request 2 ''john@example.com'')) =
     Inl (HTTPException 409
            (Fields [(''error'', Str ''Class is fully booked''), (''class_name'', Str ''Test HIIT''),
                     (''datetime'', IsoFormat \<lparr>wall_clock = 19800002000, utcoffset = 19800000000\<rparr>)])) \<and>
   fst (create_booking Asia_Kolkata
          (sample_db\<lparr>bookings := [\<lparr>class_id = 2, client_name = ''John Doe'',
                                    client_email = ''john@example.com'', bk_id = 1, booked_at = 501\<rparr>]\<rparr>)
          502 503 (sample_request 2 ''john@example.com'')) \<noteq>
     Inl (HTTPException 409
            (Fields [(''error'', Str ''You have already booked this class''),
                     (''class_name'', Str ''Test HIIT''),
                     (''client_email'', Str ''john@example.com'')]))"
  by (simp add: store_eval string_eval datetime_ist_def astimezone_def localize_def instant_def
        UTC_def Asia_Kolkata_def fixed_offset_def)

text \<open>
  C2, amended. Duplicate invariant: in every state that sequential runs of the booking
  workflow reach from a store that satisfies it, at most one booking exists for a pair of
  class id and normalized email. Once a booking for the pair has been accepted, every
  later attempt for the same pair (whatever the letter case of the email) fails and
  inserts nothing; the failure is the conflict "already booked" whenever the class has
  not started and still has a free slot.
\<close>

theorem duplicate_invariant:
  assumes "no_duplicate_bookings s"
  shows "(\<forall>cid e. length (filter (\<lambda>b. class_id b = cid \<and> client_email b = e)
                      (bookings (run_bookings IST s reqs))) \<le> 1) \<and>
         (\<forall>b s1 s2. create_booking IST s now t req = (Inr b, s1) \<and>
              s2 = run_bookings IST s1 reqs' \<and> class_id req' = class_id req \<and>
              lower (client_email req') = lower (client_email req) \<longrightarrow>
              (\<exists>err. create_booking IST s2 now' t' req' = (Inl err, s2) \<and>
                 (\<forall>c. get_class_by_id s2 (class_id req') = Some c \<and>
                      \<not> datetime_utc c < now' \<and> 0 < available_slots s2 c \<longrightarrow>
                      err = HTTPException 409
                        (Fields [(''error'', Str ''You have already booked this class''),
                                 (''class_name'', Str (name c)),
                                 (''client_email'', Str (lower (client_email req)))]))))"
proof (intro conjI allI impI)
  fix cid e
  from assms have "no_duplicate_bookings (run_bookings IST s reqs)"
    by (rule run_bookings_no_duplicate)
  then have "length (filter (\<lambda>b. (class_id b, client_email b) = (cid, e))
                 (bookings (run_bookings IST s reqs))) \<le> 1"
    unfolding no_duplicate_bookings_def by (rule distinct_keys_filter_le_1)
  then show "length (filter (\<lambda>b. class_id b = cid \<and> client_email b = e)
                 (bookings (run_bookings IST s reqs))) \<le> 1"
    by simp
next
  fix b s1 s2
  assume h: "create_booking IST s now t req = (Inr b, s1) \<and>
      s2 = run_bookings IST s1 reqs' \<and> class_id req' = class_id req \<and>
      lower (client_email req') = lower (client_email req)"
  then have ok: "create_booking IST s now t req = (Inr b, s1)" by simp
  from create_booking_success [OF ok] have "b \<in> set (bookings s1)"
    and "class_id b = class_id req" and "client_email b = lower (client_email req)"
    by (auto simp: new_row_def)
  moreover from h have "set (bookings s1) \<subseteq> set (bookings s2)"
    by (simp add: bookings_run_bookings_mono)
  ultimately have "check_existing_booking s2 (class_id req') (lower (client_email req'))"
    using h by (force simp: check_existing_booking_iff)
  from booked_pair_rejected [OF this, of IST now' t'] h
  show "\<exists>err. create_booking IST s2 now' t' req' = (Inl err, s2) \<and>
          (\<forall>c. get_class_by_id s2 (class_id req') = Some c \<and>
               \<not> datetime_utc c < now' \<and> 0 < available_slots s2 c \<longrightarrow>
               err = HTTPException 409
                 (Fields [(''error'', Str ''You have already booked this class''),
                          (''class_name'', Str (name c)),
                          (''client_email'', Str (lower (client_email req)))]))"
    by simp
qed

theorem duplicate_invariant_witness:
  "no_duplicate_bookings sample_db \<and>
   length (filter (\<lambda>b. class_id b = 1 \<and> client_email b = ''john@example.com'')
             (bookings (run_bookings Asia_Kolkata sample_db duplicate_requests))) \<le> 1 \<and>
   create_booking Asia_Kolkata sample_db 500 501 (sample_request 1 ''John@Example.com'') =
     (Inr john_row, sample_db\<lparr>bookings := [john_row]\<rparr>) \<and>
   create_booking Asia_Kolkata (sample_db\<lparr>bookings := [john_row]\<rparr>) 502 503
       (sample_request 1 ''john@example.COM'') =
     (Inl (HTTPException 409
             (Fields [(''error'', Str ''You have already booked this class''),
                      (''class_name'', Str ''Test Yoga''),
                      (''client_email'', Str ''john@example.com'')])),
      sample_db\<lparr>bookings := [john_row]\<rparr>)"
proof -
  let ?s1 = "sample_db\<lparr>bookings := [john_row]\<rparr>"
  let ?req = "sample_request 1 ''John@Example.com''"
  let ?req' = "sample_request 1 ''john@example.COM''"
  have inv: "no_duplicate_bookings sample_db"
    by (simp add: no_duplicate_bookings_def sample_db_def)
  have first: "create_booking Asia_Kolkata sample_db 500 501 ?req = (Inr john_row, ?s1)"
    by (simp add: john_row_def store_eval string_eval)
  have same: "class_id ?req' = class_id ?req \<and> lower (client_email ?req') = lower (client_email ?req)"
    by (simp add: sample_request_def string_eval)
  have low: "lower (client_email ?req) = ''john@example.com''"
    by (simp add: sample_request_def string_eval)
  have cls: "get_class_by_id ?s1 (class_id ?req') = Some test_yoga \<and>
             \<not> datetime_utc test_yoga < 502 \<and> 0 < available_slots ?s1 test_yoga"
    by (simp add: john_row_def store_eval)
  have nm: "name test_yoga = ''Test Yoga''"
    by (simp add: test_yoga_def)
  note inst = duplicate_invariant [OF inv, of Asia_Kolkata duplicate_requests 500 501 ?req "[]" ?req' 502 503]
  from inst have "length (filter (\<lambda>b. class_id b = 1 \<and> client_email b = ''john@example.com'')
             (bookings (run_bookings Asia_Kolkata sample_db duplicate_requests))) \<le> 1"
    by blast
  moreover from inst first same have
    "\<exists>err. create_booking Asia_Kolkata ?s1 502 503 ?req' = (Inl err, ?s1) \<and>
       (\<forall>c. get_class_by_id ?s1 (class_id ?req') = Some c \<and>
            \<not> datetime_utc c < 502 \<and> 0 < available_slots ?s1 c \<longrightarrow>
            err = HTTPException 409
              (Fields [(''error'', Str ''You have already booked this class''),
                       (''class_name'', Str (name c)),
                       (''client_email'', Str (lower (client_email ?req)))]))"
    by simp
  then have "create_booking Asia_Kolkata ?s1 502 503 ?req' =
     (Inl (HTTPException 409
             (Fields [(''error'', Str ''You have already booked this class''),
                      (''class_name'', Str ''Test Yoga''),
                      (''client_email'', Str ''john@example.com'')])), ?s1)"
    using cls nm low by metis
  ultimately show ?thesis using inv first by simp
qed

subsection \<open>The start-time gate\<close>

text \<open>
  C4. A class whose scheduled instant is earlier than the clock reading is refused with
  status 400 whatever its capacity and whoever asks. At the scheduled instant itself the
  gate, which compares with \<open><\<close>, lets the request through: the class of the sample
  store that starts at 1000 is booked at 1000, while the listing at the same instant no
  longer counts it as upcoming.
\<close>

theorem create_booking_at_start_instant:
  "datetime_utc test_yoga = 1000 \<and>
   create_booking Asia_Kolkata sample_db 1000 1001 (sample_request 1 ''john@example.com'') =
     (Inr \<lparr>class_id = 1, client_name = ''John Doe'', client_email = ''john@example.com'',
            bk_id = 1, booked_at = 1001\<rparr>,
      sample_db\<lparr>bookings := [\<lparr>class_id = 1, client_name = ''John Doe'',
                                client_email = ''john@example.com'', bk_id = 1,
                                booked_at = 1001\<rparr>]\<rparr>) \<and>
   get_upcoming_classes sample_db 1000 0 10 = [test_hiit]"
  by (simp add: store_eval string_eval get_upcoming_classes_def sql_limit_def sql_offset_def)

lemma create_booking_past_class:
  "get_class_by_id s (class_id req) = Some c \<Longrightarrow> datetime_utc c < now \<Longrightarrow>
   fst (create_booking IST s now t req) =
     Inl (HTTPException 400 (Message ''Cannot book a class that has already started or ended'')) \<and>
   snd (create_booking IST s now t req) = s"
  by (simp add: create_booking_started)

subsection \<open>Listing the upcoming classes\<close>

lemma sql_window:
  "0 \<le> skip \<Longrightarrow> 0 \<le> limit \<Longrightarrow>
   sql_limit limit (sql_offset skip xs) = take (nat limit) (drop (nat skip) xs)"
  by (simp add: sql_limit_def sql_offset_def)

lemma sorted_hd_least:
  "sorted (map f ys) \<Longrightarrow> ys \<noteq> [] \<Longrightarrow> y \<in> set ys \<Longrightarrow> f (hd ys) \<le> f y"
  by (cases ys) auto

text \<open>
  C5. For \<open>skip \<ge> 0\<close> and \<open>1 \<le> limit \<le> 100\<close> the listing holds only classes of the
  store that start strictly after the clock reading, is sorted by start time, and is the
  window \<open>skip\<close>, \<open>limit\<close> of a sorted arrangement of all such classes; with
  \<open>skip = 0\<close> and \<open>limit = 1\<close> over a store that has upcoming classes (two, say) it is
  exactly one class, and none starts earlier.
\<close>

theorem get_upcoming_classes_correct:
  assumes "0 \<le> skip" and "1 \<le> limit" and "limit \<le> 100"
  shows "(\<forall>c \<in> set (get_upcoming_classes s now skip limit).
            c \<in> set (fitness_classes s) \<and> now < datetime_utc c) \<and>
         sorted (map datetime_utc (get_upcoming_classes s now skip limit)) \<and>
         (\<exists>ys. mset ys = mset (filter (\<lambda>c. now < datetime_utc c) (fitness_classes s)) \<and>
               sorted (map datetime_utc ys) \<and>
               get_upcoming_classes s now skip limit = take (nat limit) (drop (nat skip) ys)) \<and>
         length (get_upcoming_classes s now skip limit) =
           min (nat limit) (length (filter (\<lambda>c. now < datetime_utc c) (fitness_classes s)) - nat skip) \<and>
         (skip = 0 \<and> limit = 1 \<and> (\<exists>c \<in> set (fitness_classes s). now < datetime_utc c) \<longrightarrow>
            (\<exists>c. get_upcoming_classes s now skip limit = [c] \<and>
                 (\<forall>c' \<in> set (fitness_classes s). now < datetime_utc c' \<longrightarrow>
                      datetime_utc c \<le> datetime_utc c')))"
proof -
  let ?up = "filter (\<lambda>c. now < datetime_utc c) (fitness_classes s)"
  let ?ys = "sort_key datetime_utc ?up"
  have window: "get_upcoming_classes s now skip limit = take (nat limit) (drop (nat skip) ?ys)"
    using assms by (simp add: get_upcoming_classes_def sql_window)
  have members: "\<forall>c \<in> set (get_upcoming_classes s now skip limit).
      c \<in> set (fitness_classes s) \<and> now < datetime_utc c"
  proof
    fix c assume "c \<in> set (get_upcoming_classes s now skip limit)"
    then have "c \<in> set ?ys"
      unfolding window by (blast dest: in_set_takeD in_set_dropD)
    then show "c \<in> set (fitness_classes s) \<and> now < datetime_utc c" by simp
  qed
  have "sorted (map datetime_utc ?ys)" by simp
  then have "sorted (take (nat limit) (drop (nat skip) (map datetime_utc ?ys)))"
    by (intro sorted_wrt_take sorted_wrt_drop)
  then have ordered: "sorted (map datetime_utc (get_upcoming_classes s now skip limit))"
    by (simp add: window take_map drop_map)
  have arrangement: "\<exists>ys. mset ys = mset ?up \<and> sorted (map datetime_utc ys) \<and>
      get_upcoming_classes s now skip limit = take (nat limit) (drop (nat skip) ys)"
    using window by (intro exI [of _ ?ys]) simp
  have size: "length (get_upcoming_classes s now skip limit) = min (nat limit) (length ?up - nat skip)"
    by (simp add: window min.commute)
  have first: "\<exists>c. get_upcoming_classes s now skip limit = [c] \<and>
       (\<forall>c' \<in> set (fitness_classes s). now < datetime_utc c' \<longrightarrow> datetime_utc c \<le> datetime_utc c')"
    if h: "skip = 0 \<and> limit = 1 \<and> (\<exists>c \<in> set (fitness_classes s). now < datetime_utc c)"
  proof -
    from h have ne: "?ys \<noteq> []"
      by (auto simp: filter_empty_conv simp flip: set_empty)
    from h window have "get_upcoming_classes s now skip limit = take (Suc 0) ?ys"
      by simp
    also from ne have "\<dots> = [hd ?ys]"
      by (cases ?ys) simp_all
    finally have one: "get_upcoming_classes s now skip limit = [hd ?ys]" .
    have "datetime_utc (hd ?ys) \<le> datetime_utc c'"
      if "c' \<in> set (fitness_classes s)" and "now < datetime_utc c'" for c'
    proof -
      from that have "c' \<in> set ?ys" by simp
      with ne show ?thesis
        by (intro sorted_hd_least) simp_all
    qed
    with one show ?thesis by blast
  qed
  from members ordered arrangement size first show ?thesis by blast
qed

theorem get_upcoming_classes_correct_witness:
  "(0::int) \<le> 0 \<and> (1::int) \<le> 1 \<and> (1::int) \<le> 100 \<and>
   length (filter (\<lambda>c. 500 < datetime_utc c) (fitness_classes sample_db)) = 2 \<and>
   sorted (map datetime_utc (get_upcoming_classes sample_db 500 0 1)) \<and>
   length (get_upcoming_classes sample_db 500 0 1) = 1 \<and>
   get_upcoming_classes sample_db 500 0 1 = [test_yoga]"
proof -
  have two: "length (filter (\<lambda>c. 500 < datetime_utc c) (fitness_classes sample_db)) = 2"
    by (simp add: store_eval)
  from get_upcoming_classes_correct [of 0 1 sample_db 500] two
  have "sorted (map datetime_utc (get_upcoming_classes sample_db 500 0 1)) \<and>
        length (get_upcoming_classes sample_db 500 0 1) = 1"
    by simp
  moreover have "get_upcoming_classes sample_db 500 0 1 = [test_yoga]"
    by (simp add: store_eval get_upcoming_classes_def sql_limit_def sql_offset_def)
  ultimately show ?thesis using two by simp
qed

subsection \<open>The list responses\<close>

lemma those_map_length: "those (map f xs) = Some ys \<Longrightarrow> length ys = length xs"
  by (induction xs arbitrary: ys) (auto split: option.splits)



lemma get_bookings_validated:
  "validate_email_query email_q = Inr email \<Longrightarrow>
   get_bookings IST s email_q =
     (case those (map (to_BookingResponse IST s) (get_bookings_by_email s (lower email))) of
        None \<Rightarrow> Inl (HTTPException 500 (Message ''An error occurred while fetching bookings''))
      | Some items \<Rightarrow>
          Inr \<lparr>bl_total = int (length (get_bookings_by_email s (lower email))),
               bl_bookings = items\<rparr>)"
  by (simp add: get_bookings_def Let_def)

text \<open>
  C8. In the responses of \<^verbatim>\<open>GET /classes\<close> and \<^verbatim>\<open>GET /bookings\<close> the field \<open>total\<close> is the
  length of the list in the same response. For the classes that is the size of the page,
  the smaller of \<open>limit\<close> and what is left of the upcoming classes after \<open>skip\<close>, not
  the number of all upcoming classes.
\<close>

theorem total_is_page_length:
  "(get_classes IST s now skip_q limit_q = Inr r \<longrightarrow>
      cl_total r = int (length (cl_classes r)) \<and>
      (\<forall>skip limit. get_pagination_params skip_q limit_q = Inr (skip, limit) \<longrightarrow>
         cl_total r =
           int (min (nat limit)
                  (length (filter (\<lambda>c. now < datetime_utc c) (fitness_classes s)) - nat skip)))) \<and>
   (get_bookings IST s email_q = Inr r' \<longrightarrow> bl_total r' = int (length (bl_bookings r')))"
proof (intro conjI impI allI)
  assume "get_classes IST s now skip_q limit_q = Inr r"
  then show "cl_total r = int (length (cl_classes r))"
    by (auto simp: get_classes_def Let_def split: sum.splits)
next
  fix skip limit
  assume r: "get_classes IST s now skip_q limit_q = Inr r"
    and p: "get_pagination_params skip_q limit_q = Inr (skip, limit)"
  from p have "0 \<le> skip" and "0 \<le> limit"
    by (auto simp: get_pagination_params_def Let_def split: if_splits)
  with r p show "cl_total r =
      int (min (nat limit)
             (length (filter (\<lambda>c. now < datetime_utc c) (fitness_classes s)) - nat skip))"
    by (auto simp: get_classes_def get_upcoming_classes_def sql_window min.commute)
next
  assume r': "get_bookings IST s email_q = Inr r'"
  then obtain email where v: "validate_email_query email_q = Inr email"
    by (cases "validate_email_query email_q") (auto simp: get_bookings_def)
  from r' show "bl_total r' = int (length (bl_bookings r'))"
    unfolding get_bookings_validated [OF v]
    by (auto split: option.splits dest: those_map_length)
qed

theorem total_is_page_length_witness:
  "get_classes Asia_Kolkata sample_db 500 None (Some 1) =
     Inr \<lparr>cl_total = 1,
          cl_classes = [\<lparr>r_id = 1, r_name = ''Test Yoga'', r_instructor = ''Test Instructor'',
                         r_datetime_ist = \<lparr>wall_clock = 19800001000, utcoffset = 19800000000\<rparr>,
                         r_available_slots = 10, r_total_slots = 10\<rparr>]\<rparr> \<and>
   get_pagination_params None (Some 1) = Inr (0, 1) \<and>
   length (filter (\<lambda>c. 500 < datetime_utc c) (fitness_classes sample_db)) = 2 \<and>
   get_bookings Asia_Kolkata (sample_db\<lparr>bookings := [john_row]\<rparr>) (Some ''john@example.com'') =
     Inr \<lparr>bl_total = 1,
          bl_bookings = [\<lparr>br_id = 1, br_class_id = 1, br_client_name = ''John Doe'',
                          br_client_email = ''john@example.com'',
                          br_booked_at_ist = \<lparr>wall_clock = 19800000501, utcoffset = 19800000000\<rparr>,
                          br_fitness_class =
                            \<lparr>r_id = 1, r_name = ''Test Yoga'', r_instructor = ''Test Instructor'',
                             r_datetime_ist = \<lparr>wall_clock = 19800001000, utcoffset = 19800000000\<rparr>,
                             r_available_slots = 9, r_total_slots = 10\<rparr>\<rparr>]\<rparr>"
proof -
  let ?page = "\<lparr>cl_total = 1,
          cl_classes = [\<lparr>r_id = 1, r_name = ''Test Yoga'', r_instructor = ''Test Instructor'',
                         r_datetime_ist = \<lparr>wall_clock = 19800001000, utcoffset = 19800000000\<rparr>,
                         r_available_slots = 10, r_total_slots = 10\<rparr>]\<rparr>"
  let ?mine = "\<lparr>bl_total = 1,
          bl_bookings = [\<lparr>br_id = 1, br_class_id = 1, br_client_name = ''John Doe'',
                          br_client_email = ''john@example.com'',
                          br_booked_at_ist = \<lparr>wall_clock = 19800000501, utcoffset = 19800000000\<rparr>,
                          br_fitness_class =
                            \<lparr>r_id = 1, r_name = ''Test Yoga'', r_instructor = ''Test Instructor'',
                             r_datetime_ist = \<lparr>wall_clock = 19800001000, utcoffset = 19800000000\<rparr>,
                             r_available_slots = 9, r_total_slots = 10\<rparr>\<rparr>]\<rparr>"
  have classes: "get_classes Asia_Kolkata sample_db 500 None (Some 1) = Inr ?page"
    by (simp add: get_classes_def get_pagination_params_def get_upcoming_classes_def
          sql_limit_def sql_offset_def to_FitnessClassResponse_def store_eval time_eval)
  have params: "get_pagination_params None (Some 1) = Inr (0, 1)"
    by (simp add: get_pagination_params_def)
  have two: "length (filter (\<lambda>c. 500 < datetime_utc c) (fitness_classes sample_db)) = 2"
    by (simp add: store_eval)
  have mine: "get_bookings Asia_Kolkata (sample_db\<lparr>bookings := [john_row]\<rparr>) (Some ''john@example.com'')
      = Inr ?mine"
    by (simp add: get_bookings_def validate_email_query_def get_bookings_by_email_def
          to_BookingResponse_def to_FitnessClassResponse_def john_row_def
          store_eval string_eval time_eval)
  from classes have "cl_total ?page = int (length (cl_classes ?page))"
    by (rule total_is_page_length [where IST = Asia_Kolkata and s = sample_db and now = 500
          and skip_q = None and limit_q = "Some 1" and r = ?page,
          THEN conjunct1, THEN mp, THEN conjunct1])
  moreover from mine have "bl_total ?mine = int (length (bl_bookings ?mine))"
    by (rule total_is_page_length [where IST = Asia_Kolkata
          and s = "sample_db\<lparr>bookings := [john_row]\<rparr>"
          and email_q = "Some ''john@example.com''" and r' = ?mine,
          THEN conjunct2, THEN mp])
  ultimately show ?thesis using classes params two mine by simp
qed

subsection \<open>The email parameter of \<^verbatim>\<open>GET /bookings\<close>\<close>

lemma validate_email_query_blank:
  "strip email = [] \<Longrightarrow>
   validate_email_query (Some email) =
     Inl (HTTPException 400 (Message ''Email parameter is required and cannot be empty''))"
  by (simp add: validate_email_query_def)

lemma strip_Nil: "strip [] = []"
  by (simp add: strip_def lstrip_def rstrip_def)

lemma validate_email_query_ok:
  "strip email \<noteq> [] \<Longrightarrow> validate_email_query (Some email) = Inr (lower (strip email))"
  by (auto simp: validate_email_query_def strip_Nil)

text \<open>
  C7, as the claim states it, fails: an email parameter that is present but empty, or all
  blanks, is answered with status 400 by the dependency, not with 422.
\<close>

theorem empty_email_status_counterexample:
  "get_bookings Asia_Kolkata sample_db (Some '''') =
     Inl (HTTPException 400 (Message ''Email parameter is required and cannot be empty'')) \<and>
   get_bookings Asia_Kolkata sample_db (Some ''   '') =
     Inl (HTTPException 400 (Message ''Email parameter is required and cannot be empty'')) \<and>
   status_code (HTTPException 400 (Message ''Email parameter is required and cannot be empty''))
     \<noteq> 422"
  by (simp add: get_bookings_def validate_email_query_def string_eval)

text \<open>
  C7, amended. \<^verbatim>\<open>GET /bookings\<close> without the email parameter fails with the validation
  error of status 422; with an email that is empty or all blanks it fails with status 400;
  neither returns a list. An email without bookings succeeds with the empty list and
  total 0.
\<close>

theorem get_bookings_email_validation:
  "get_bookings IST s None = Inl RequestValidationError \<and>
   status_code RequestValidationError = 422 \<and>
   (strip email = [] \<longrightarrow>
      get_bookings IST s (Some email) =
        Inl (HTTPException 400 (Message ''Email parameter is required and cannot be empty'')) \<and>
      status_code (HTTPException 400 (Message ''Email parameter is required and cannot be empty''))
        = 400) \<and>
   (strip email' \<noteq> [] \<and> (\<forall>b \<in> set (bookings s). client_email b \<noteq> lower (strip email')) \<longrightarrow>
      get_bookings IST s (Some email') = Inr \<lparr>bl_total = 0, bl_bookings = []\<rparr>)"
proof (intro conjI impI)
  show "get_bookings IST s None = Inl RequestValidationError"
    by (simp add: get_bookings_def validate_email_query_def)
next
  assume "strip email = []"
  then show "get_bookings IST s (Some email) =
      Inl (HTTPException 400 (Message ''Email parameter is required and cannot be empty''))"
    by (simp add: get_bookings_def validate_email_query_blank)
next
  assume h: "strip email' \<noteq> [] \<and> (\<forall>b \<in> set (bookings s). client_email b \<noteq> lower (strip email'))"
  then have "filter (\<lambda>b. client_email b = lower (strip email')) (bookings s) = []"
    by (auto simp: filter_empty_conv)
  then have "get_bookings_by_email s (lower (lower (strip email'))) = []"
    by (simp add: get_bookings_by_email_def lower_idem)
  with h show "get_bookings IST s (Some email') = Inr \<lparr>bl_total = 0, bl_bookings = []\<rparr>"
    by (simp add: get_bookings_validated [OF validate_email_query_ok])
qed simp_all

theorem get_bookings_email_validation_witness:
  "strip ''   '' = [] \<and>
   get_bookings Asia_Kolkata (sample_db\<lparr>bookings := [john_row]\<rparr>) (Some ''   '') =
     Inl (HTTPException 400 (Message ''Email parameter is required and cannot be empty'')) \<and>
   strip ''nonexistent@example.com'' \<noteq> [] \<and>
   client_email john_row \<noteq> lower (strip ''nonexistent@example.com'') \<and>
   get_bookings Asia_Kolkata (sample_db\<lparr>bookings := [john_row]\<rparr>)
       (Some ''nonexistent@example.com'') = Inr \<lparr>bl_total = 0, bl_bookings = []\<rparr> \<and>
   get_bookings Asia_Kolkata (sample_db\<lparr>bookings := [john_row]\<rparr>) None =
     Inl RequestValidationError"
proof -
  let ?s = "sample_db\<lparr>bookings := [john_row]\<rparr>"
  have blank: "strip ''   '' = []"
    by (simp add: string_eval)
  have present: "strip ''nonexistent@example.com'' \<noteq> []"
    by (simp add: string_eval)
  have other: "client_email john_row \<noteq> lower (strip ''nonexistent@example.com'')"
    by (simp add: john_row_def string_eval)
  then have none: "\<forall>b \<in> set (bookings ?s). client_email b \<noteq> lower (strip ''nonexistent@example.com'')"
    by simp
  from get_bookings_email_validation [of Asia_Kolkata ?s "''   ''" "''nonexistent@example.com''"]
    blank present none other
  show ?thesis by simp
qed

lemma validate_email_query_padded:
  assumes "list_all isspace ws1" and "list_all isspace ws2" and "strip e \<noteq> []"
  shows "validate_email_query (Some (ws1 @ e @ ws2)) = Inr (lower (strip e))"
  using assms by (simp add: validate_email_query_ok strip_padded)

lemma those_to_BookingResponse:
  "those (map (to_BookingResponse IST s) rows) = Some items \<Longrightarrow>
   map br_id items = map bk_id rows \<and> map br_client_email items = map client_email rows"
proof (induction rows arbitrary: items)
  case Nil
  then show ?case by simp
next
  case (Cons b rows)
  then show ?case
    by (auto simp: to_BookingResponse_def split: option.splits)
qed

lemma set_get_bookings_by_email:
  "set (get_bookings_by_email s email) = {b \<in> set (bookings s). client_email b = email}"
  by (auto simp: get_bookings_by_email_def)

lemma EmailStr_padded:
  "list_all isspace ws1 \<Longrightarrow> list_all isspace ws2 \<Longrightarrow>
   EmailStr validate_email (ws1 @ e @ ws2) = EmailStr validate_email (strip e)"
  by (simp add: EmailStr_def strip_padded strip_idem)

lemma BookingCreate_validate_padded:
  assumes "list_all isspace ws1" and "list_all isspace ws2"
  shows "BookingCreate_validate validate_email (body\<lparr>body_client_email := ws1 @ e @ ws2\<rparr>) =
         BookingCreate_validate validate_email (body\<lparr>body_client_email := strip e\<rparr>)"
  using assms
  by (cases "EmailStr validate_email (strip e)")
     (simp_all add: BookingCreate_validate_def EmailStr_padded)

lemma post_book_success:
  assumes "post_book validate_email IST s now t body = (Inr b, s1)"
  shows "\<exists>v. validate_email (strip (body_client_email body)) = Inr v \<and> client_email b = lower v"
proof -
  from assms obtain req where
    req: "BookingCreate_validate validate_email body = Inr req" and
    run: "create_booking IST s now t req = (Inr b, s1)"
    by (cases "BookingCreate_validate validate_email body") (auto simp: post_book_def)
  from req obtain v where "validate_email (strip (body_client_email body)) = Inr v"
    and "client_email req = v"
    by (auto simp: BookingCreate_validate_def EmailStr_def split: if_splits sum.splits)
  moreover from create_booking_success [OF run] have "client_email b = lower (client_email req)"
    by (simp add: new_row_def)
  ultimately show ?thesis by simp
qed

text \<open>
  C10, as the claim states it, fails in its last part: the email of a booking is stripped
  as well. A body whose address has a blank on either side passes validation, which strips
  it, and the row is stored without the blanks.
\<close>

theorem padded_email_stored_stripped_counterexample:
  "body_client_email padded_body = '' A@B.com '' \<and>
   post_book known_validate_email Asia_Kolkata sample_db 500 501 padded_body =
     (Inr ab_row, sample_db\<lparr>bookings := [ab_row]\<rparr>) \<and>
   client_email ab_row = ''a@b.com'' \<and>
   lower '' A@B.com '' = '' a@b.com '' \<and>
   client_email ab_row \<noteq> lower (body_client_email padded_body)"
  by (simp add: post_book_def BookingCreate_validate_def EmailStr_def known_validate_email_def
        padded_body_def ab_row_def store_eval string_eval)

text \<open>
  C10, amended. The email parameter of \<^verbatim>\<open>GET /bookings\<close> is stripped of the blanks around
  it and put in lower case before the bookings are looked up: a query with blanks around
  \<open>e\<close> looks up \<open>lower (strip e)\<close>, returns the bookings stored under exactly that
  email and no others, and answers as the query \<open>strip (lower e)\<close> does. At booking
  creation the blanks are stripped as well, by the validation of the body and not by the
  handler: the stored email is the lower case of what the validator makes of the stripped
  value, so a body with blanks around the address is treated as the body without them.
\<close>

theorem get_bookings_strips_email:
  assumes "list_all isspace ws1" and "list_all isspace ws2"
  shows "(strip e = [] \<longrightarrow>
            get_bookings IST s (Some (ws1 @ e @ ws2)) =
              Inl (HTTPException 400 (Message ''Email parameter is required and cannot be empty''))) \<and>
         (strip e \<noteq> [] \<longrightarrow>
            get_bookings IST s (Some (ws1 @ e @ ws2)) =
              (case those (map (to_BookingResponse IST s)
                            (get_bookings_by_email s (lower (strip e)))) of
                 None \<Rightarrow>
                   Inl (HTTPException 500 (Message ''An error occurred while fetching bookings''))
               | Some items \<Rightarrow>
                   Inr \<lparr>bl_total = int (length (get_bookings_by_email s (lower (strip e)))),
                        bl_bookings = items\<rparr>)) \<and>
         (\<forall>r. get_bookings IST s (Some (ws1 @ e @ ws2)) = Inr r \<longrightarrow>
              (\<forall>br \<in> set (bl_bookings r). br_client_email br = lower (strip e)) \<and>
              (\<forall>b \<in> set (bookings s). client_email b = lower (strip e) \<longrightarrow>
                   (\<exists>br \<in> set (bl_bookings r). br_id br = bk_id b))) \<and>
         get_bookings IST s (Some (ws1 @ e @ ws2)) = get_bookings IST s (Some (strip (lower e))) \<and>
         (\<forall>validate_email s0 now t body b s1.
              post_book validate_email IST s0 now t body = (Inr b, s1) \<longrightarrow>
              (\<exists>v. validate_email (strip (body_client_email body)) = Inr v \<and>
                   client_email b = lower v)) \<and>
         (\<forall>validate_email s0 now t body.
              post_book validate_email IST s0 now t (body\<lparr>body_client_email := ws1 @ e @ ws2\<rparr>) =
              post_book validate_email IST s0 now t (body\<lparr>body_client_email := strip e\<rparr>))"
proof (intro conjI allI impI ballI)
  have padded: "strip (ws1 @ e @ ws2) = strip e"
    using assms by (rule strip_padded)
  let ?rows = "get_bookings_by_email s (lower (strip e))"
  have looked_up: "get_bookings IST s (Some (ws1 @ e @ ws2)) =
      (case those (map (to_BookingResponse IST s) ?rows) of
         None \<Rightarrow> Inl (HTTPException 500 (Message ''An error occurred while fetching bookings''))
       | Some items \<Rightarrow> Inr \<lparr>bl_total = int (length ?rows), bl_bookings = items\<rparr>)"
    if "strip e \<noteq> []"
    using get_bookings_validated [OF validate_email_query_padded [OF assms that], of IST s]
    unfolding lower_idem .
  {
    assume "strip e = []"
    with padded show "get_bookings IST s (Some (ws1 @ e @ ws2)) =
        Inl (HTTPException 400 (Message ''Email parameter is required and cannot be empty''))"
      by (simp add: get_bookings_def validate_email_query_blank)
  }
  {
    assume "strip e \<noteq> []"
    then show "get_bookings IST s (Some (ws1 @ e @ ws2)) =
      (case those (map (to_BookingResponse IST s) ?rows) of
         None \<Rightarrow> Inl (HTTPException 500 (Message ''An error occurred while fetching bookings''))
       | Some items \<Rightarrow> Inr \<lparr>bl_total = int (length ?rows), bl_bookings = items\<rparr>)"
      by (rule looked_up)
  }
  {
    fix r assume r: "get_bookings IST s (Some (ws1 @ e @ ws2)) = Inr r"
    have ne: "strip e \<noteq> []"
    proof
      assume "strip e = []"
      with padded r show False
        by (simp add: get_bookings_def validate_email_query_blank)
    qed
    from r looked_up [OF ne] have items: "those (map (to_BookingResponse IST s) ?rows) = Some (bl_bookings r)"
      by (auto split: option.splits)
    from those_to_BookingResponse [OF items]
    have ids: "map br_id (bl_bookings r) = map bk_id ?rows"
      and emails: "map br_client_email (bl_bookings r) = map client_email ?rows"
      by simp_all
    {
      fix br assume "br \<in> set (bl_bookings r)"
      then have "br_client_email br \<in> set (map br_client_email (bl_bookings r))" by simp
      then have "br_client_email br \<in> client_email ` set ?rows"
        by (simp add: emails)
      then show "br_client_email br = lower (strip e)"
        by (auto simp: set_get_bookings_by_email)
    }
    {
      fix b assume "b \<in> set (bookings s)" and "client_email b = lower (strip e)"
      then have "b \<in> set ?rows"
        by (simp add: set_get_bookings_by_email)
      then have "bk_id b \<in> set (map br_id (bl_bookings r))"
        by (simp add: ids)
      then show "\<exists>br \<in> set (bl_bookings r). br_id br = bk_id b"
        by auto
    }
  }
  show "get_bookings IST s (Some (ws1 @ e @ ws2)) = get_bookings IST s (Some (strip (lower e)))"
  proof (cases "strip e = []")
    case True
    then have "strip (strip (lower e)) = []"
      by (simp add: strip_idem strip_lower lower_Nil_iff strip_Nil)
    with True padded show ?thesis
      by (simp add: get_bookings_def validate_email_query_blank)
  next
    case False
    then have "strip (strip (lower e)) \<noteq> []"
      by (simp add: strip_idem strip_lower lower_Nil_iff strip_Nil)
    with False padded show ?thesis
      by (simp add: get_bookings_def validate_email_query_ok strip_idem strip_lower lower_idem)
  qed
  {
    fix validate_email s0 now t body b s1
    assume "post_book validate_email IST s0 now t body = (Inr b, s1)"
    then show "\<exists>v. validate_email (strip (body_client_email body)) = Inr v \<and>
        client_email b = lower v"
      by (rule post_book_success)
  }
  {
    fix validate_email :: "string \<Rightarrow> py_error + string" and s0 now t and body :: BookingBody
    show "post_book validate_email IST s0 now t (body\<lparr>body_client_email := ws1 @ e @ ws2\<rparr>) =
        post_book validate_email IST s0 now t (body\<lparr>body_client_email := strip e\<rparr>)"
      using assms by (simp add: post_book_def BookingCreate_validate_padded)
  }
qed

theorem get_bookings_strips_email_witness:
  "list_all isspace '' '' \<and> list_all isspace ''  '' \<and> strip ''John@Example.COM'' \<noteq> [] \<and>
   lower (strip ''John@Example.COM'') = ''john@example.com'' \<and>
   get_bookings Asia_Kolkata (sample_db\<lparr>bookings := [john_row]\<rparr>)
       (Some ('' '' @ ''John@Example.COM'' @ ''  '')) =
     Inr \<lparr>bl_total = 1,
          bl_bookings = [\<lparr>br_id = 1, br_class_id = 1, br_client_name = ''John Doe'',
                          br_client_email = ''john@example.com'',
                          br_booked_at_ist = \<lparr>wall_clock = 19800000501, utcoffset = 19800000000\<rparr>,
                          br_fitness_class =
                            \<lparr>r_id = 1, r_name = ''Test Yoga'', r_instructor = ''Test Instructor'',
                             r_datetime_ist = \<lparr>wall_clock = 19800001000, utcoffset = 19800000000\<rparr>,
                             r_available_slots = 9, r_total_slots = 10\<rparr>\<rparr>]\<rparr> \<and>
   post_book known_validate_email Asia_Kolkata sample_db 500 501 padded_body =
     (Inr ab_row, sample_db\<lparr>bookings := [ab_row]\<rparr>) \<and>
   known_validate_email (strip (body_client_email padded_body)) = Inr ''A@b.com'' \<and>
   client_email ab_row = lower ''A@b.com''"
proof -
  let ?s = "sample_db\<lparr>bookings := [john_row]\<rparr>"
  let ?mine = "\<lparr>bl_total = 1,
          bl_bookings = [\<lparr>br_id = 1, br_class_id = 1, br_client_name = ''John Doe'',
                          br_client_email = ''john@example.com'',
                          br_booked_at_ist = \<lparr>wall_clock = 19800000501, utcoffset = 19800000000\<rparr>,
                          br_fitness_class =
                            \<lparr>r_id = 1, r_name = ''Test Yoga'', r_instructor = ''Test Instructor'',
                             r_datetime_ist = \<lparr>wall_clock = 19800001000, utcoffset = 19800000000\<rparr>,
                             r_available_slots = 9, r_total_slots = 10\<rparr>\<rparr>]\<rparr>"
  have ws: "list_all isspace '' ''" "list_all isspace ''  ''"
    by (simp_all add: string_eval)
  have ne: "strip ''John@Example.COM'' \<noteq> []"
    and low: "lower (strip ''John@Example.COM'') = ''john@example.com''"
    by (simp_all add: string_eval)
  have rows: "(case those (map (to_BookingResponse Asia_Kolkata ?s)
                            (get_bookings_by_email ?s ''john@example.com'')) of
                 None \<Rightarrow>
                   Inl (HTTPException 500 (Message ''An error occurred while fetching bookings''))
               | Some items \<Rightarrow>
                   Inr \<lparr>bl_total = int (length (get_bookings_by_email ?s ''john@example.com'')),
                        bl_bookings = items\<rparr>) = Inr ?mine"
    by (simp add: get_bookings_by_email_def to_BookingResponse_def to_FitnessClassResponse_def
          john_row_def store_eval time_eval)
  have posted: "post_book known_validate_email Asia_Kolkata sample_db 500 501 padded_body =
      (Inr ab_row, sample_db\<lparr>bookings := [ab_row]\<rparr>)"
    by (simp add: post_book_def BookingCreate_validate_def EmailStr_def known_validate_email_def
          padded_body_def ab_row_def store_eval string_eval)
  have checked: "known_validate_email (strip (body_client_email padded_body)) = Inr ''A@b.com''"
    by (simp add: known_validate_email_def padded_body_def string_eval)
  note inst = get_bookings_strips_email [OF ws, of "''John@Example.COM''" Asia_Kolkata ?s]
  from inst ne have "get_bookings Asia_Kolkata ?s (Some ('' '' @ ''John@Example.COM'' @ ''  '')) =
      (case those (map (to_BookingResponse Asia_Kolkata ?s)
                    (get_bookings_by_email ?s (lower (strip ''John@Example.COM'')))) of
         None \<Rightarrow> Inl (HTTPException 500 (Message ''An error occurred while fetching bookings''))
       | Some items \<Rightarrow>
           Inr \<lparr>bl_total = int (length (get_bookings_by_email ?s (lower (strip ''John@Example.COM'')))),
                bl_bookings = items\<rparr>)"
    by blast
  then have listed: "get_bookings Asia_Kolkata ?s (Some ('' '' @ ''John@Example.COM'' @ ''  '')) =
      Inr ?mine"
    unfolding low rows .
  from inst posted have "\<exists>v. known_validate_email (strip (body_client_email padded_body)) = Inr v \<and>
      client_email ab_row = lower v"
    by blast
  with checked have stored: "client_email ab_row = lower ''A@b.com''"
    by simp
  from ws ne low listed posted checked stored show ?thesis by simp
qed

subsection \<open>Email normalization from booking to listing\<close>






subsection \<open>Parsing a datetime string\<close>

lemma replace_append: "replace old new (s @ s') = replace old new s @ replace old new s'"
  by (simp add: replace_def)

lemma replace_Z_suffix:
  "replace CHR ''Z'' ''+00:00'' (s @ ''Z'') = replace CHR ''Z'' ''+00:00'' (s @ ''+00:00'')"
  by (simp add: replace_append) (simp add: replace_def)

text \<open>
  C9. \<open>parse_ist_string\<close> on a well-formed string: when the parsed value carries an
  offset, the result is the UTC reading of the same instant, wall clock minus offset; a
  trailing \<^verbatim>\<open>Z\<close> is read as the offset \<^verbatim>\<open>+00:00\<close>; when the value carries no offset, its
  wall clock is taken as a reading of the configured zone and the result is the UTC
  reading of that instant. A string that is not well formed raises the parser's error.
\<close>

theorem parse_ist_string_correct:
  "(fromisoformat (replace CHR ''Z'' ''+00:00'' text) = Inr (Aware a) \<longrightarrow>
      parse_ist_string fromisoformat IST text =
        Inr \<lparr>wall_clock = wall_clock a - utcoffset a, utcoffset = 0\<rparr>) \<and>
   (fromisoformat (replace CHR ''Z'' ''+00:00'' text) = Inr (Naive w) \<longrightarrow>
      parse_ist_string fromisoformat IST text =
        Inr \<lparr>wall_clock = w - utcoffset_at_wall IST w, utcoffset = 0\<rparr>) \<and>
   (fromisoformat (replace CHR ''Z'' ''+00:00'' text) = Inl err \<longrightarrow>
      parse_ist_string fromisoformat IST text = Inl err) \<and>
   parse_ist_string fromisoformat IST (text @ ''Z'') =
     parse_ist_string fromisoformat IST (text @ ''+00:00'')"
proof (intro conjI impI)
  assume "fromisoformat (replace CHR ''Z'' ''+00:00'' text) = Inr (Aware a)"
  then show "parse_ist_string fromisoformat IST text =
      Inr \<lparr>wall_clock = wall_clock a - utcoffset a, utcoffset = 0\<rparr>"
    by (simp add: parse_ist_string_def astimezone_def instant_def UTC_def fixed_offset_def)
next
  assume "fromisoformat (replace CHR ''Z'' ''+00:00'' text) = Inr (Naive w)"
  then show "parse_ist_string fromisoformat IST text =
      Inr \<lparr>wall_clock = w - utcoffset_at_wall IST w, utcoffset = 0\<rparr>"
    by (simp add: parse_ist_string_def astimezone_def instant_def localize_def UTC_def
          fixed_offset_def)
next
  assume "fromisoformat (replace CHR ''Z'' ''+00:00'' text) = Inl err"
  then show "parse_ist_string fromisoformat IST text = Inl err"
    by (simp add: parse_ist_string_def)
next
  show "parse_ist_string fromisoformat IST (text @ ''Z'') =
      parse_ist_string fromisoformat IST (text @ ''+00:00'')"
    by (simp only: parse_ist_string_def replace_Z_suffix)
qed

theorem parse_ist_string_correct_witness:
  "known_fromisoformat (replace CHR ''Z'' ''+00:00'' ''2025-01-01T10:00:00Z'') =
     Inr (Aware \<lparr>wall_clock = 63871322400000000, utcoffset = 0\<rparr>) \<and>
   parse_ist_string known_fromisoformat Asia_Kolkata ''2025-01-01T10:00:00Z'' =
     Inr \<lparr>wall_clock = 63871322400000000, utcoffset = 0\<rparr> \<and>
   known_fromisoformat (replace CHR ''Z'' ''+00:00'' ''2025-01-01T15:30:00+05:30'') =
     Inr (Aware \<lparr>wall_clock = 63871342200000000, utcoffset = 19800000000\<rparr>) \<and>
   parse_ist_string known_fromisoformat Asia_Kolkata ''2025-01-01T15:30:00+05:30'' =
     Inr \<lparr>wall_clock = 63871322400000000, utcoffset = 0\<rparr> \<and>
   known_fromisoformat (replace CHR ''Z'' ''+00:00'' ''2025-01-01T15:30:00'') =
     Inr (Naive 63871342200000000) \<and>
   parse_ist_string known_fromisoformat Asia_Kolkata ''2025-01-01T15:30:00'' =
     Inr \<lparr>wall_clock = 63871322400000000, utcoffset = 0\<rparr> \<and>
   known_fromisoformat (replace CHR ''Z'' ''+00:00'' ''tomorrow'') = Inl ValueError \<and>
   parse_ist_string known_fromisoformat Asia_Kolkata ''tomorrow'' = Inl ValueError"
proof -
  have z: "known_fromisoformat (replace CHR ''Z'' ''+00:00'' ''2025-01-01T10:00:00Z'') =
      Inr (Aware \<lparr>wall_clock = 63871322400000000, utcoffset = 0\<rparr>)"
    by (simp add: known_fromisoformat_def replace_def)
  have off: "known_fromisoformat (replace CHR ''Z'' ''+00:00'' ''2025-01-01T15:30:00+05:30'') =
      Inr (Aware \<lparr>wall_clock = 63871342200000000, utcoffset = 19800000000\<rparr>)"
    by (simp add: known_fromisoformat_def replace_def)
  have naive: "known_fromisoformat (replace CHR ''Z'' ''+00:00'' ''2025-01-01T15:30:00'') =
      Inr (Naive 63871342200000000)"
    by (simp add: known_fromisoformat_def replace_def)
  have bad: "known_fromisoformat (replace CHR ''Z'' ''+00:00'' ''tomorrow'') = Inl ValueError"
    by (simp add: known_fromisoformat_def replace_def)
  have zone: "utcoffset_at_wall Asia_Kolkata 63871342200000000 = 19800000000"
    by (simp add: Asia_Kolkata_def fixed_offset_def)
  from z parse_ist_string_correct [of known_fromisoformat "''2025-01-01T10:00:00Z''"
      "\<lparr>wall_clock = 63871322400000000, utcoffset = 0\<rparr>" Asia_Kolkata]
  have 1: "parse_ist_string known_fromisoformat Asia_Kolkata ''2025-01-01T10:00:00Z'' =
      Inr \<lparr>wall_clock = 63871322400000000, utcoffset = 0\<rparr>"
    by simp
  from off parse_ist_string_correct [of known_fromisoformat "''2025-01-01T15:30:00+05:30''"
      "\<lparr>wall_clock = 63871342200000000, utcoffset = 19800000000\<rparr>" Asia_Kolkata]
  have 2: "parse_ist_string known_fromisoformat Asia_Kolkata ''2025-01-01T15:30:00+05:30'' =
      Inr \<lparr>wall_clock = 63871322400000000, utcoffset = 0\<rparr>"
    by simp
  from naive zone parse_ist_string_correct [of known_fromisoformat "''2025-01-01T15:30:00''" _
      Asia_Kolkata 63871342200000000]
  have 3: "parse_ist_string known_fromisoformat Asia_Kolkata ''2025-01-01T15:30:00'' =
      Inr \<lparr>wall_clock = 63871322400000000, utcoffset = 0\<rparr>"
    by simp
  from bad parse_ist_string_correct [of known_fromisoformat "''tomorrow''" _ Asia_Kolkata _ ValueError]
  have 4: "parse_ist_string known_fromisoformat Asia_Kolkata ''tomorrow'' = Inl ValueError"
    by simp
  from z off naive bad 1 2 3 4 show ?thesis by simp
qed

end
